theory Spec2Isabelle
  imports Complex_Main "HOL-Library.Sublist"
begin

section \<open>Python strings\<close>

text \<open>
  A Python \<open>str\<close> is a sequence of Unicode code points; \<open>len\<close> counts code points.
  The model keeps a string as the list of its code points. \<open>ustr\<close> turns an ASCII
  literal into that list; a letter beyond ASCII is written as its code point
  (\<open>231\<close> is c-cedilla, \<open>227\<close> is a-tilde, \<open>243\<close> is o-acute and so on, all precomposed
  in the source file).
\<close>

type_synonym pystr = "nat list"

definition ustr :: "string \<Rightarrow> pystr" where
  "ustr s = map of_char s"

text \<open>\<open>s.startswith(k)\<close>, and \<open>k in s\<close> for strings: \<open>k\<close> occurs in \<open>s\<close> as a contiguous run.\<close>

fun startswith :: "pystr \<Rightarrow> pystr \<Rightarrow> bool" where
  "startswith s [] = True"
| "startswith [] (k # ks) = False"
| "startswith (c # s) (k # ks) = (c = k \<and> startswith s ks)"

fun py_in :: "pystr \<Rightarrow> pystr \<Rightarrow> bool" where
  "py_in k [] = (k = [])"
| "py_in k (c # s) = (startswith (c # s) k \<or> py_in k s)"

section \<open>The Python runtime\<close>

text \<open>
  The program calls \<open>str.lower\<close>, \<open>str.split\<close>, \<open>str.title\<close>, the regular expression
  class \<open>\w\<close>, \<open>datetime.now\<close>, \<open>isoformat\<close> and \<open>strftime\<close>. Their behaviour on the code
  points \<open>0 .. 255\<close> (ASCII and Latin-1, which hold every letter of the lexicons and of the
  sample) is written out below. Beyond that range it rests on the Unicode tables of the
  interpreter, and the clock and the rendering of a date on the platform; none of these is
  part of the repository, so the model takes them as a parameter \<open>rt\<close>, and every theorem
  holds for each value of it.
\<close>

record 'dt runtime =
  lower_ext :: "pystr \<Rightarrow> pystr"
  title_ext :: "pystr \<Rightarrow> pystr"
  alnum_ext :: "nat \<Rightarrow> bool"
  space_ext :: "nat \<Rightarrow> bool"
  clock :: "nat \<Rightarrow> 'dt"
  isoformat :: "'dt \<Rightarrow> pystr"
  strftime :: "'dt \<Rightarrow> pystr \<Rightarrow> pystr"

text \<open>
  \<open>clock rt n\<close> is what the \<open>n\<close>-th call of \<open>datetime.now()\<close> returns. The state threaded
  through the program counts the calls made so far, and the true divisions carried out
  so far (the latter is a counter of the model only: the program has no such variable).
\<close>

record trace =
  clock_reads :: nat
  divisions :: nat

datatype error = KeyError pystr | ZeroDivisionError

text \<open>
  \<open>str.lower\<close>: within Latin-1 each code point is mapped on its own, \<open>A .. Z\<close> and the
  capital letters \<open>192 .. 222\<close> (without the multiplication sign \<open>215\<close>) move up by 32.
\<close>

definition lower_cp :: "nat \<Rightarrow> nat" where
  "lower_cp c =
     (if (65 \<le> c \<and> c \<le> 90) \<or> (192 \<le> c \<and> c \<le> 222 \<and> c \<noteq> 215) then c + 32 else c)"

definition lower :: "'dt runtime \<Rightarrow> pystr \<Rightarrow> pystr" where
  "lower rt s = (if list_all (\<lambda>c. c < 256) s then map lower_cp s else lower_ext rt s)"

text \<open>
  \<open>str.title\<close> is only ever applied to the keys of \<open>types_count\<close> and \<open>emotions_total\<close>,
  which are ASCII. On ASCII a letter that follows a letter is made lower case and any
  other letter upper case.
\<close>

fun title_from :: "bool \<Rightarrow> pystr \<Rightarrow> pystr" where
  "title_from previous_is_cased [] = []"
| "title_from previous_is_cased (c # s) =
     (if 97 \<le> c \<and> c \<le> 122
        then (if previous_is_cased then c else c - 32) # title_from True s
      else if 65 \<le> c \<and> c \<le> 90
        then (if previous_is_cased then c + 32 else c) # title_from True s
      else c # title_from False s)"

definition title :: "'dt runtime \<Rightarrow> pystr \<Rightarrow> pystr" where
  "title rt s = (if list_all (\<lambda>c. c < 128) s then title_from False s else title_ext rt s)"

text \<open>
  White space as \<open>str.split()\<close> sees it: tab to carriage return, the four separators
  \<open>28 .. 31\<close>, the blank, NEL (\<open>133\<close>) and the no-break space (\<open>160\<close>).
\<close>

definition isspace :: "'dt runtime \<Rightarrow> nat \<Rightarrow> bool" where
  "isspace rt c =
     (if c < 256 then (9 \<le> c \<and> c \<le> 13) \<or> (28 \<le> c \<and> c \<le> 32) \<or> c = 133 \<or> c = 160
      else space_ext rt c)"

text \<open>
  A word character of \<open>\w\<close> on a \<open>str\<close> pattern: the underscore or an alphanumeric code
  point (\<open>isalpha\<close>, \<open>isdecimal\<close>, \<open>isdigit\<close> or \<open>isnumeric\<close>). In Latin-1 these are the
  digits, the letters, the ordinal indicators \<open>170\<close> and \<open>186\<close>, the superscripts \<open>178\<close>,
  \<open>179\<close>, \<open>185\<close>, the micro sign \<open>181\<close>, the fractions \<open>188 .. 190\<close> and the accented letters
  \<open>192 .. 255\<close> without the signs \<open>215\<close> and \<open>247\<close>.
\<close>

definition is_word :: "'dt runtime \<Rightarrow> nat \<Rightarrow> bool" where
  "is_word rt c =
     (if c < 256
      then (48 \<le> c \<and> c \<le> 57) \<or> (65 \<le> c \<and> c \<le> 90) \<or> c = 95 \<or> (97 \<le> c \<and> c \<le> 122)
           \<or> c = 170 \<or> c = 178 \<or> c = 179 \<or> c = 181 \<or> c = 185 \<or> c = 186
           \<or> (188 \<le> c \<and> c \<le> 190) \<or> (192 \<le> c \<and> c \<noteq> 215 \<and> c \<noteq> 247)
      else alnum_ext rt c)"

text \<open>
  The maximal runs of code points that satisfy \<open>P\<close>, from left to right. \<open>content.split()\<close>
  is the list of the maximal runs without white space. \<open>re.findall(r'\b\w+\b', content)\<close>
  is the list of the maximal runs of word characters: a match can only start where a run
  starts, \<open>\w+\<close> is greedy and the closing \<open>\b\<close> holds at the end of the run, and the
  search goes on after the match.
\<close>

fun runs_from :: "(nat \<Rightarrow> bool) \<Rightarrow> pystr \<Rightarrow> pystr \<Rightarrow> pystr list" where
  "runs_from P cur [] = (if cur = [] then [] else [cur])"
| "runs_from P cur (c # s) =
     (if P c then runs_from P (cur @ [c]) s
      else if cur = [] then runs_from P [] s
      else cur # runs_from P [] s)"

definition split :: "'dt runtime \<Rightarrow> pystr \<Rightarrow> pystr list" where
  "split rt s = runs_from (\<lambda>c. \<not> isspace rt c) [] s"

definition findall_words :: "'dt runtime \<Rightarrow> pystr \<Rightarrow> pystr list" where
  "findall_words rt s = runs_from (is_word rt) [] s"

section \<open>Dicts\<close>

text \<open>
  A dict is an association list with distinct keys in insertion order. \<open>d.get(k, v)\<close> is
  \<open>dict_get d k v\<close>; the assignment \<open>d[k] = v\<close> is \<open>dict_set k v d\<close>: it replaces the value
  of a key that is there, in place, and adds a new key at the end. \<open>d[k]\<close> raises
  \<open>KeyError\<close> on a key that is not there. \<open>sorted(d.items(), key=lambda x: x[1],
  reverse=True)\<close> sorts by falling value and is stable: items of equal value keep their
  order.
\<close>

definition dict_get :: "('k \<times> 'v) list \<Rightarrow> 'k \<Rightarrow> 'v \<Rightarrow> 'v" where
  "dict_get d k v = (case map_of d k of None \<Rightarrow> v | Some x \<Rightarrow> x)"

fun dict_set :: "'k \<Rightarrow> 'v \<Rightarrow> ('k \<times> 'v) list \<Rightarrow> ('k \<times> 'v) list" where
  "dict_set k v [] = [(k, v)]"
| "dict_set k v ((k', x) # d) = (if k' = k then (k', v) # d else (k', x) # dict_set k v d)"

definition subscript :: "(pystr \<times> 'v) list \<Rightarrow> pystr \<Rightarrow> error + 'v" where
  "subscript d k = (case map_of d k of None \<Rightarrow> Inl (KeyError k) | Some x \<Rightarrow> Inr x)"

definition sorted_by_value_reverse :: "('k \<times> int) list \<Rightarrow> ('k \<times> int) list" where
  "sorted_by_value_reverse items = sort_key (\<lambda>x. - snd x) items"

section \<open>The lexicons of \<open>DreamAnalyzer.__init__\<close>\<close>

text \<open>
  \<open>self.emotions\<close> is a dict literal; a dict iterates in insertion order, so it is kept
  as an association list in the order of the source.
\<close>

definition emotions :: "(pystr \<times> pystr list) list" where
  "emotions =
    [(ustr ''positivo'',
        [ustr ''feliz'', ustr ''alegre'', ustr ''esperan'' @ [231] @ ustr ''a'', ustr ''amor'',
         ustr ''paz'', ustr ''luz'', ustr ''voar'', ustr ''liberdade'']),
     (ustr ''nostalgico'',
        [ustr ''passado'', ustr ''inf'' @ [226] @ ustr ''ncia'', ustr ''mem'' @ [243] @ ustr ''ria'',
         ustr ''saudade'', ustr ''tempo'', ustr ''antigo'']),
     (ustr ''misterioso'',
        [ustr ''escuro'', ustr ''sombra'', ustr ''desconhecido'', ustr ''estranho'',
         ustr ''m'' @ [225] @ ustr ''gico'', ustr ''surreal'']),
     (ustr ''ansioso'',
        [ustr ''correr'', ustr ''perseguir'', ustr ''perder'', ustr ''cair'', ustr ''medo'',
         ustr ''pressa'', ustr ''fugir''])]"

definition future_keywords :: "pystr list" where
  "future_keywords =
    [ustr ''futuro'', ustr ''amanh'' @ [227], ustr ''pr'' @ [243] @ ustr ''ximo'', ustr ''espero'',
     ustr ''quero'', ustr ''desejo'', ustr ''planejo'']"

definition night_keywords :: "pystr list" where
  "night_keywords =
    [ustr ''dormir'', ustr ''sonhei'', ustr ''pesadelo'', ustr ''acordei'', ustr ''noite'',
     ustr ''cama'']"

section \<open>\<open>detect_dream_type\<close>\<close>

text \<open>\<open>sum(1 for keyword in keywords if keyword in content)\<close>, a Python int.\<close>

definition keyword_hits :: "pystr list \<Rightarrow> pystr \<Rightarrow> int" where
  "keyword_hits keywords content =
     sum_list (map (\<lambda>keyword. 1) (filter (\<lambda>keyword. py_in keyword content) keywords))"

definition detect_dream_type :: "pystr \<Rightarrow> pystr" where
  "detect_dream_type content =
     (let future_count = keyword_hits future_keywords content;
          night_count = keyword_hits night_keywords content
      in if future_count > night_count then ustr ''futuro''
         else if night_count > future_count then ustr ''noturno''
         else ustr ''indefinido'')"

section \<open>\<open>analyze_emotions\<close>\<close>

fun emotions_loop :: "(pystr \<times> pystr list) list \<Rightarrow> pystr \<Rightarrow> (pystr \<times> int) list
                        \<Rightarrow> (pystr \<times> int) list" where
  "emotions_loop [] content emotion_scores = emotion_scores"
| "emotions_loop ((emotion, keywords) # rest) content emotion_scores =
     (let score = keyword_hits keywords content
      in emotions_loop rest content
           (if score > 0 then dict_set emotion score emotion_scores else emotion_scores))"

definition analyze_emotions :: "pystr \<Rightarrow> (pystr \<times> int) list" where
  "analyze_emotions content = emotions_loop emotions content []"

section \<open>\<open>extract_keywords\<close>\<close>

definition count_frequency :: "pystr list \<Rightarrow> (pystr \<times> int) list" where
  "count_frequency keywords =
     fold (\<lambda>word word_freq. dict_set word (dict_get word_freq word 0 + 1) word_freq) keywords []"

definition extract_keywords :: "'dt runtime \<Rightarrow> pystr \<Rightarrow> (pystr \<times> int) list" where
  "extract_keywords rt content =
     (let words = findall_words rt content;
          keywords = filter (\<lambda>word. length word > 4) words;
          word_freq = count_frequency keywords
      in take 5 (sorted_by_value_reverse word_freq))"

section \<open>\<open>calculate_positivity\<close>\<close>

definition negative_indicators :: "pystr list" where
  "negative_indicators =
    [ustr ''n'' @ [227] @ ustr ''o'', ustr ''nunca'', ustr ''imposs'' @ [237] @ ustr ''vel'',
     ustr ''dif'' @ [237] @ ustr ''cil'', ustr ''problema'', ustr ''medo'']"

definition calculate_positivity :: "'dt runtime \<Rightarrow> pystr \<Rightarrow> error + int" where
  "calculate_positivity rt content =
     (case subscript emotions (ustr ''positivo'') of
        Inl e \<Rightarrow> Inl e
      | Inr positive_words \<Rightarrow>
          (let positive_count = keyword_hits positive_words content;
               negative_count = keyword_hits negative_indicators content;
               total_words = int (length (split rt content))
           in if total_words = 0 then Inr 50
              else (let score = 50 + (positive_count * 10) - (negative_count * 5)
                    in Inr (max 0 (min 100 score)))))"

section \<open>\<open>analyze_dream_content\<close>\<close>

text \<open>The dict that \<open>analyze_dream_content\<close> returns, one field for each of its keys.\<close>

record analysis =
  a_type :: pystr
  a_emotions :: "(pystr \<times> int) list"
  a_keywords :: "(pystr \<times> int) list"
  a_positivity_score :: int
  a_word_count :: int
  a_analysis_date :: pystr

definition analyze_dream_content ::
    "'dt runtime \<Rightarrow> pystr \<Rightarrow> trace \<Rightarrow> error + (analysis \<times> trace)" where
  "analyze_dream_content rt content st =
     (let content_lower = lower rt content;
          dream_type = detect_dream_type content_lower;
          emotion_scores = analyze_emotions content_lower;
          keywords = extract_keywords rt content_lower
      in case calculate_positivity rt content_lower of
           Inl e \<Rightarrow> Inl e
         | Inr positivity_score \<Rightarrow>
             Inr (\<lparr> a_type = dream_type,
                    a_emotions = emotion_scores,
                    a_keywords = keywords,
                    a_positivity_score = positivity_score,
                    a_word_count = int (length (split rt content)),
                    a_analysis_date = isoformat rt (clock rt (clock_reads st)) \<rparr>,
                  st\<lparr> clock_reads := clock_reads st + 1 \<rparr>))"

section \<open>Numbers and their rendering\<close>

text \<open>
  A Python \<open>float\<close> is an IEEE double. The model keeps a finite double as sign, mantissa
  and exponent, with the value \<open>mantissa * 2 ^ exponent\<close>, negated when the sign is set.
  \<open>nearest_double sign n d\<close> is the double nearest to the fraction \<open>n / d\<close>, a tie going to
  the even mantissa, with 53 bits of mantissa: \<open>scaled_quotient n d e\<close> is \<open>n / d\<close> divided by
  \<open>2 ^ e\<close>, and \<open>e\<close> is chosen so that this lies between \<open>2 ^ 52\<close> and \<open>2 ^ 53\<close>.
  \<open>dyadic_fraction m e\<close> is \<open>m * 2 ^ e\<close> as a fraction. The exponent range is left out (no
  overflow, no subnormal numbers): the rounding is the machine's for results whose size
  lies between \<open>2 ^ - 1022\<close> and \<open>2 ^ 1024\<close>, and for zero. A quotient or product of
  \<open>generate_dream_report\<close> over \<open>n\<close> entries is zero or lies between \<open>1 / n\<close> and \<open>100\<close>.
\<close>

datatype pyfloat = PyFloat (negative: bool) (mantissa: nat) (exponent: int)

datatype number = IntNum int | FloatNum pyfloat

definition round_half_even :: "nat \<Rightarrow> nat \<Rightarrow> nat" where
  "round_half_even n d =
     (let q = n div d; r = n mod d
      in if 2 * r < d then q else if 2 * r > d then q + 1 else if even q then q else q + 1)"

fun bit_length :: "nat \<Rightarrow> nat" where
  "bit_length n = (if n = 0 then 0 else Suc (bit_length (n div 2)))"

definition scaled_quotient :: "nat \<Rightarrow> nat \<Rightarrow> int \<Rightarrow> nat \<times> nat" where
  "scaled_quotient n d e = (if e \<ge> 0 then (n, d * 2 ^ nat e) else (n * 2 ^ nat (- e), d))"

definition dyadic_fraction :: "nat \<Rightarrow> int \<Rightarrow> nat \<times> nat" where
  "dyadic_fraction m e = (if e \<ge> 0 then (m * 2 ^ nat e, 1) else (m, 2 ^ nat (- e)))"

definition nearest_double :: "bool \<Rightarrow> nat \<Rightarrow> nat \<Rightarrow> pyfloat" where
  "nearest_double sign n d =
     (if n = 0 then PyFloat sign 0 0
      else (let e0 = int (bit_length n) - int (bit_length d) - 53;
                (n0, d0) = scaled_quotient n d e0;
                e = (if n0 div d0 \<ge> 2 ^ 53 then e0 + 1 else e0);
                (n1, d1) = scaled_quotient n d e
            in PyFloat sign (round_half_even n1 d1) e))"

text \<open>\<open>float(i)\<close>, the true division \<open>a / b\<close> of two ints, and the product of two floats.\<close>

definition int_to_float :: "int \<Rightarrow> pyfloat" where
  "int_to_float i = nearest_double (i < 0) (nat \<bar>i\<bar>) 1"

definition truediv :: "int \<Rightarrow> int \<Rightarrow> trace \<Rightarrow> error + (pyfloat \<times> trace)" where
  "truediv a b st =
     (if b = 0 then Inl ZeroDivisionError
      else Inr (nearest_double ((a < 0) \<noteq> (b < 0)) (nat \<bar>a\<bar>) (nat \<bar>b\<bar>),
                st\<lparr> divisions := divisions st + 1 \<rparr>))"

definition float_mul :: "pyfloat \<Rightarrow> pyfloat \<Rightarrow> pyfloat" where
  "float_mul x y =
     (let (n, d) = dyadic_fraction (mantissa x * mantissa y) (exponent x + exponent y)
      in nearest_double (negative x \<noteq> negative y) n d)"

text \<open>\<open>str(i)\<close> for an int, and the format \<open>.1f\<close>: one decimal, a tie going to the even digit.\<close>

fun decimal :: "nat \<Rightarrow> pystr" where
  "decimal n = (if n < 10 then [48 + n] else decimal (n div 10) @ [48 + n mod 10])"

definition str_int :: "int \<Rightarrow> pystr" where
  "str_int i = (if i < 0 then 45 # decimal (nat (- i)) else decimal (nat i))"

definition format_1f :: "number \<Rightarrow> pystr" where
  "format_1f x =
     (let f = (case x of IntNum i \<Rightarrow> int_to_float i | FloatNum y \<Rightarrow> y);
          (n, d) = dyadic_fraction (10 * mantissa f) (exponent f);
          tenths = round_half_even n d
      in (if negative f then [45] else []) @ decimal (tenths div 10) @ [46]
           @ decimal (tenths mod 10))"

section \<open>\<open>generate_dream_report\<close>\<close>

text \<open>
  An entry is a dict from field names to text. The loop over the entries carries
  \<open>types_count\<close>, \<open>emotions_total\<close> and the running sum \<open>avg_positivity\<close>.
\<close>

type_synonym entry = "(pystr \<times> pystr) list"

fun report_loop :: "'dt runtime \<Rightarrow> entry list
      \<Rightarrow> (pystr \<times> int) list \<times> (pystr \<times> int) list \<times> int \<Rightarrow> trace
      \<Rightarrow> error + (((pystr \<times> int) list \<times> (pystr \<times> int) list \<times> int) \<times> trace)" where
  "report_loop rt [] acc st = Inr (acc, st)"
| "report_loop rt (dream # rest) (types_count, emotions_total, avg_positivity) st =
     (case analyze_dream_content rt (dict_get dream (ustr ''content'') []) st of
        Inl e \<Rightarrow> Inl e
      | Inr (analysis, st1) \<Rightarrow>
          (let dream_type = a_type analysis;
               types_count1 =
                 dict_set dream_type (dict_get types_count dream_type 0 + 1) types_count;
               emotions_total1 =
                 fold (\<lambda>(emotion, score) total.
                         dict_set emotion (dict_get total emotion 0 + score) total)
                   (a_emotions analysis) emotions_total;
               avg_positivity1 = avg_positivity + a_positivity_score analysis
           in report_loop rt rest (types_count1, emotions_total1, avg_positivity1) st1))"

definition report_header :: "int \<Rightarrow> number \<Rightarrow> pystr" where
  "report_header total_dreams avg_positivity =
     [10] @ ustr ''# '' @ [127769] @ ustr '' RELAT'' @ [211] @ ustr ''RIO DE AN'' @ [193]
       @ ustr ''LISE DOS SONHOS'' @ [10]
     @ [10]
     @ ustr ''## '' @ [128202] @ ustr '' Estat'' @ [237] @ ustr ''sticas Gerais'' @ [10]
     @ ustr ''- **Total de sonhos analisados:** '' @ str_int total_dreams @ [10]
     @ ustr ''- **Score m'' @ [233] @ ustr ''dio de positividade:** ''
       @ format_1f avg_positivity @ ustr ''/100'' @ [10]
     @ [10]
     @ ustr ''## '' @ [127917] @ ustr '' Tipos de Sonhos'' @ [10]"

fun types_lines :: "'dt runtime \<Rightarrow> int \<Rightarrow> (pystr \<times> int) list \<Rightarrow> pystr \<Rightarrow> trace
      \<Rightarrow> error + (pystr \<times> trace)" where
  "types_lines rt total_dreams [] report st = Inr (report, st)"
| "types_lines rt total_dreams ((dream_type, count) # rest) report st =
     (case truediv count total_dreams st of
        Inl e \<Rightarrow> Inl e
      | Inr (ratio, st1) \<Rightarrow>
          (let percentage = float_mul ratio (int_to_float 100)
           in types_lines rt total_dreams rest
                (report @ ustr ''- **'' @ title rt dream_type @ ustr '':** '' @ str_int count
                   @ ustr '' sonhos ('' @ format_1f (FloatNum percentage) @ ustr ''%)'' @ [10])
                st1))"

fun emotions_lines :: "'dt runtime \<Rightarrow> (pystr \<times> int) list \<Rightarrow> pystr \<Rightarrow> pystr" where
  "emotions_lines rt [] report = report"
| "emotions_lines rt ((emotion, total_score) # rest) report =
     emotions_lines rt rest
       (report @ ustr ''- **'' @ title rt emotion @ ustr '':** '' @ str_int total_score
          @ ustr '' ocorr'' @ [234] @ ustr ''ncias'' @ [10])"

definition timestamp_line :: "'dt runtime \<Rightarrow> 'dt \<Rightarrow> pystr" where
  "timestamp_line rt now =
     [10] @ ustr ''## '' @ [128302] @ ustr '' An'' @ [225] @ ustr ''lise Gerada em: ''
       @ strftime rt now (ustr ''%d/%m/%Y '' @ [224] @ ustr ''s %H:%M'') @ [10]"

definition generate_dream_report ::
    "'dt runtime \<Rightarrow> entry list \<Rightarrow> trace \<Rightarrow> error + (pystr \<times> trace)" where
  "generate_dream_report rt dreams_data st =
     (if dreams_data = [] then Inr (ustr ''Nenhum sonho para analisar.'', st)
      else
        (let total_dreams = int (length dreams_data)
         in case report_loop rt dreams_data ([], [], 0) st of
              Inl e \<Rightarrow> Inl e
            | Inr ((types_count, emotions_total, avg_sum), st1) \<Rightarrow>
                (case (if total_dreams > 0
                       then (case truediv avg_sum total_dreams st1 of
                               Inl e \<Rightarrow> Inl e
                             | Inr (q, st2) \<Rightarrow> Inr (FloatNum q, st2))
                       else Inr (IntNum 0, st1)) of
                   Inl e \<Rightarrow> Inl e
                 | Inr (avg_positivity, st2) \<Rightarrow>
                     (case types_lines rt total_dreams types_count
                             (report_header total_dreams avg_positivity) st2 of
                        Inl e \<Rightarrow> Inl e
                      | Inr (report, st3) \<Rightarrow>
                          Inr (emotions_lines rt (sorted_by_value_reverse emotions_total)
                                 (report @ [10] @ ustr ''## '' @ [128173] @ ustr '' Emo''
                                    @ [231, 245] @ ustr ''es Predominantes'' @ [10])
                               @ timestamp_line rt (clock rt (clock_reads st3)),
                               st3\<lparr> clock_reads := clock_reads st3 + 1 \<rparr>)))))"

section \<open>The sample of \<open>main\<close>\<close>

definition sample_dreams :: "entry list" where
  "sample_dreams =
    [[(ustr ''content'',
         ustr ''Sonhei que estava voando sobre uma cidade do futuro com carros voadores e pr''
           @ [233] @ ustr ''dios verdes''),
      (ustr ''type'', ustr ''futuro''),
      (ustr ''date'', ustr ''2025-01-10'')],
     [(ustr ''content'',
         ustr ''Tive um pesadelo onde estava correndo de algo escuro e n'' @ [227]
           @ ustr ''o conseguia encontrar a sa'' @ [237] @ ustr ''da''),
      (ustr ''type'', ustr ''noturno''),
      (ustr ''date'', ustr ''2025-01-09'')],
     [(ustr ''content'',
         ustr ''Imagino um mundo onde todos vivem em paz e harmonia, sem guerras nem fome''),
      (ustr ''type'', ustr ''futuro''),
      (ustr ''date'', ustr ''2025-01-08'')]]"

section \<open>Running the model\<close>

text \<open>
  A runtime and a starting state on which the model can be run: texts within Latin-1, a
  clock that stands at 10 January 2025, 08:30, and no call made yet.
\<close>

definition latin1_runtime :: "unit runtime" where
  "latin1_runtime =
     \<lparr> lower_ext = (\<lambda>s. s), title_ext = (\<lambda>s. s), alnum_ext = (\<lambda>c. False),
       space_ext = (\<lambda>c. False), clock = (\<lambda>n. ()),
       isoformat = (\<lambda>now. ustr ''2025-01-10T08:30:00''),
       strftime = (\<lambda>now format. ustr ''10/01/2025 '' @ [224] @ ustr ''s 08:30'') \<rparr>"

definition start_trace :: trace where
  "start_trace = \<lparr> clock_reads = 0, divisions = 0 \<rparr>"

text \<open>
  \<open>first_before ws x y\<close>: in the list \<open>ws\<close>, the element \<open>x\<close> occurs before the first
  occurrence of \<open>y\<close>.
\<close>

abbreviation first_before :: "'a list \<Rightarrow> 'a \<Rightarrow> 'a \<Rightarrow> bool" where
  "first_before ws x y \<equiv> \<exists>as cs. ws = as @ y # cs \<and> y \<notin> set as \<and> x \<in> set as"

section \<open>Substring search and keyword counts\<close>

lemma startswith_iff_prefix: "startswith s k \<longleftrightarrow> prefix k s"
  by (induction s k rule: startswith.induct) auto

lemma py_in_iff_sublist: "py_in k s \<longleftrightarrow> sublist k s"
proof (induction s)
  case Nil
  show ?case by simp
next
  case (Cons c s)
  show ?case
  proof (cases k)
    case Nil
    then show ?thesis by simp
  next
    case (Cons a as)
    with Cons.IH show ?thesis
      by (simp add: startswith_iff_prefix sublist_Cons_right)
  qed
qed

lemma keyword_hits_length:
  "keyword_hits ks c = int (length (filter (\<lambda>k. py_in k c) ks))"
  unfolding keyword_hits_def by (induction ks) simp_all

lemma keyword_hits_card:
  assumes "distinct ks"
  shows "keyword_hits ks c = int (card {k \<in> set ks. sublist k c})"
proof -
  have "distinct (filter (\<lambda>k. py_in k c) ks)"
    using assms by simp
  then have "card (set (filter (\<lambda>k. py_in k c) ks)) = length (filter (\<lambda>k. py_in k c) ks)"
    by (rule distinct_card)
  moreover have "set (filter (\<lambda>k. py_in k c) ks) = {k \<in> set ks. sublist k c}"
    by (auto simp: py_in_iff_sublist)
  ultimately show ?thesis
    by (simp add: keyword_hits_length)
qed

lemma distinct_future_keywords: "distinct future_keywords"
  by (simp add: future_keywords_def ustr_def)

lemma distinct_night_keywords: "distinct night_keywords"
  by (simp add: night_keywords_def ustr_def)

section \<open>Words, blanks and the positivity score\<close>

lemma runs_from_Nil_iff: "runs_from P cur s = [] \<longleftrightarrow> cur = [] \<and> (\<forall>c\<in>set s. \<not> P c)"
  by (induction s arbitrary: cur) auto

lemma split_Nil_iff: "split rt s = [] \<longleftrightarrow> (\<forall>c\<in>set s. isspace rt c)"
  by (simp add: split_def runs_from_Nil_iff)

lemma subscript_positivo:
  "subscript emotions (ustr ''positivo'') =
     Inr [ustr ''feliz'', ustr ''alegre'', ustr ''esperan'' @ [231] @ ustr ''a'', ustr ''amor'',
          ustr ''paz'', ustr ''luz'', ustr ''voar'', ustr ''liberdade'']"
  by (simp add: subscript_def emotions_def ustr_def)

lemma map_of_positivo:
  "map_of emotions (ustr ''positivo'') =
     Some [ustr ''feliz'', ustr ''alegre'', ustr ''esperan'' @ [231] @ ustr ''a'', ustr ''amor'',
          ustr ''paz'', ustr ''luz'', ustr ''voar'', ustr ''liberdade'']"
  by (simp add: emotions_def ustr_def)

lemma distinct_emotion_keywords:
  "(emotion, keywords) \<in> set emotions \<Longrightarrow> distinct keywords"
  by (auto simp: emotions_def ustr_def)

lemma distinct_negative_indicators: "distinct negative_indicators"
  by (simp add: negative_indicators_def ustr_def)

lemma emotion_keyword_not_blank:
  "(emotion, keywords) \<in> set emotions \<Longrightarrow> k \<in> set keywords \<Longrightarrow> \<exists>x\<in>set k. \<not> isspace rt x"
  by (auto simp: emotions_def ustr_def isspace_def)

lemma negative_indicator_not_blank:
  "k \<in> set negative_indicators \<Longrightarrow> \<exists>x\<in>set k. \<not> isspace rt x"
  by (auto simp: negative_indicators_def ustr_def isspace_def)

lemma keyword_hits_blank:
  assumes "\<forall>c\<in>set content. isspace rt c" and "\<forall>k\<in>set ks. \<exists>x\<in>set k. \<not> isspace rt x"
  shows "keyword_hits ks content = 0"
proof -
  have "\<not> py_in k content" if "k \<in> set ks" for k
  proof
    assume "py_in k content"
    then have "set k \<subseteq> set content"
      by (simp add: py_in_iff_sublist set_mono_sublist)
    with assms that show False by blast
  qed
  then have "filter (\<lambda>k. py_in k content) ks = []"
    by (simp add: filter_empty_conv)
  then show ?thesis by (simp add: keyword_hits_length)
qed

lemma calculate_positivity_Inr: "\<exists>score. calculate_positivity rt content = Inr score"
  by (simp add: calculate_positivity_def subscript_positivo Let_def)

section \<open>The emotion loop in closed form\<close>

lemma dict_set_fresh: "k \<notin> fst ` set d \<Longrightarrow> dict_set k v d = d @ [(k, v)]"
  by (induction d) auto

lemma emotions_loop_closed:
  assumes "distinct (map fst cats)" and "fst ` set cats \<inter> fst ` set acc = {}"
  shows "emotions_loop cats content acc =
           acc @ map (\<lambda>(emotion, keywords). (emotion, keyword_hits keywords content))
                   (filter (\<lambda>(emotion, keywords). keyword_hits keywords content > 0) cats)"
  using assms
proof (induction cats arbitrary: acc)
  case Nil
  then show ?case by simp
next
  case (Cons cat cats)
  obtain emotion kws where cat: "cat = (emotion, kws)" by (cases cat)
  from Cons.prems have fresh: "emotion \<notin> fst ` set acc" and d: "distinct (map fst cats)"
    and notin: "emotion \<notin> fst ` set cats" and disj: "fst ` set cats \<inter> fst ` set acc = {}"
    by (auto simp: cat)
  show ?case
  proof (cases "keyword_hits kws content > 0")
    case True
    have "fst ` set cats \<inter> fst ` set (acc @ [(emotion, keyword_hits kws content)]) = {}"
      using disj notin by auto
    from Cons.IH [OF d this] True fresh show ?thesis
      by (simp add: cat dict_set_fresh)
  next
    case False
    with Cons.IH [OF d disj] show ?thesis
      by (simp add: cat)
  qed
qed

lemma distinct_emotions: "distinct (map fst emotions)"
  by (simp add: emotions_def ustr_def)

lemma analyze_emotions_closed:
  "analyze_emotions content =
     map (\<lambda>(emotion, keywords). (emotion, keyword_hits keywords content))
       (filter (\<lambda>(emotion, keywords). keyword_hits keywords content > 0) emotions)"
  unfolding analyze_emotions_def
  by (simp add: emotions_loop_closed [OF distinct_emotions])

lemma map_of_map_filter:
  assumes "distinct (map fst xs)" and "(e, k) \<in> set xs"
  shows "map_of (map (\<lambda>(e, k). (e, f k)) (filter (\<lambda>(e, k). P k) xs)) e
           = (if P k then Some (f k) else None)"
  using assms
proof (induction xs)
  case Nil
  then show ?case by simp
next
  case (Cons x xs)
  obtain e' k' where x: "x = (e', k')" by (cases x)
  show ?case
  proof (cases "e' = e")
    case True
    with Cons.prems have k: "k' = k" and notin: "e \<notin> fst ` set xs"
      by (auto simp: x rev_image_eqI)
    have "map_of (map (\<lambda>(e, k). (e, f k)) (filter (\<lambda>(e, k). P k) xs)) e = None"
      using notin by (force simp: map_of_eq_None_iff)
    with True k show ?thesis by (simp add: x)
  next
    case False
    with Cons.prems have "(e, k) \<in> set xs" and "distinct (map fst xs)"
      by (auto simp: x)
    from Cons.IH [OF this(2) this(1)] False show ?thesis
      by (simp add: x)
  qed
qed

section \<open>Counting into a dict\<close>

lemma map_fst_dict_set:
  "map fst (dict_set k v d) = (if k \<in> fst ` set d then map fst d else map fst d @ [k])"
  by (induction d) force+

lemma map_of_dict_set: "map_of (dict_set k v d) = (map_of d)(k \<mapsto> v)"
  by (induction d) auto

lemma dict_get_dict_set:
  "dict_get (dict_set k v d) k' w = (if k' = k then v else dict_get d k' w)"
  by (simp add: dict_get_def map_of_dict_set)

lemma dict_get_member:
  "distinct (map fst d) \<Longrightarrow> (k, v) \<in> set d \<Longrightarrow> dict_get d k w = v"
  by (simp add: dict_get_def)

lemma keys_fold_bump:
  "fst ` set (fold (\<lambda>w d. dict_set w (dict_get d w 0 + (1::int)) d) ws d) = fst ` set d \<union> set ws"
proof (induction ws arbitrary: d)
  case Nil
  show ?case by simp
next
  case (Cons w ws)
  have "fst ` set (dict_set w (dict_get d w 0 + (1::int)) d) = insert w (fst ` set d)"
  proof -
    have "fst ` set (dict_set w (dict_get d w 0 + (1::int)) d)
            = set (map fst (dict_set w (dict_get d w 0 + (1::int)) d))"
      by simp
    also have "\<dots> = insert w (fst ` set d)"
      unfolding map_fst_dict_set by auto
    finally show ?thesis .
  qed
  with Cons.IH show ?case by simp
qed

lemma distinct_fold_bump:
  "distinct (map fst d) \<Longrightarrow>
   distinct (map fst (fold (\<lambda>w d. dict_set w (dict_get d w 0 + (1::int)) d) ws d))"
proof (induction ws arbitrary: d)
  case Nil
  then show ?case by simp
next
  case (Cons w ws)
  from Cons.prems have "distinct (map fst (dict_set w (dict_get d w 0 + (1::int)) d))"
    by (simp add: map_fst_dict_set)
  from Cons.IH [OF this] show ?case by simp
qed

lemma dict_get_fold_bump:
  "dict_get (fold (\<lambda>w d. dict_set w (dict_get d w 0 + (1::int)) d) ws d) k 0
     = dict_get d k 0 + int (count_list ws k)"
proof (induction ws arbitrary: d)
  case Nil
  show ?case by simp
next
  case (Cons w ws)
  show ?case
    by (simp add: Cons.IH dict_get_dict_set)
qed

lemma sum_dict_set_bump:
  "sum_list (map snd (dict_set w (dict_get d w 0 + (1::int)) d)) = sum_list (map snd d) + 1"
proof (induction d)
  case Nil
  show ?case by (simp add: dict_get_def)
next
  case (Cons p d)
  obtain k x where p: "p = (k, x)" by (cases p)
  show ?case
  proof (cases "k = w")
    case True
    then show ?thesis by (simp add: p dict_get_def)
  next
    case False
    with Cons.IH show ?thesis by (simp add: p dict_get_def)
  qed
qed

lemma sum_fold_bump:
  "sum_list (map snd (fold (\<lambda>w d. dict_set w (dict_get d w 0 + (1::int)) d) ws d))
     = sum_list (map snd d) + int (length ws)"
proof (induction ws arbitrary: d)
  case Nil
  show ?case by simp
next
  case (Cons w ws)
  show ?case by (simp add: Cons.IH sum_dict_set_bump)
qed

lemma count_list_filter: "P w \<Longrightarrow> count_list (filter P ws) w = count_list ws w"
  by (induction ws) auto

lemma count_list_map:
  "count_list (map f xs) y = length (filter (\<lambda>x. f x = y) xs)"
  by (induction xs) auto

section \<open>Insertion order and the stable sort\<close>

lemma first_before_append: "first_before ws x y \<Longrightarrow> first_before (ws @ [w]) x y"
  by (metis append_Cons append_assoc)

lemma first_order_fold_bump:
  "sorted_wrt (first_before ws)
     (map fst (fold (\<lambda>w d. dict_set w (dict_get d w 0 + (1::int)) d) ws []))"
proof (induction ws rule: rev_induct)
  case Nil
  show ?case by simp
next
  case (snoc w ws)
  let ?d = "fold (\<lambda>w d. dict_set w (dict_get d w 0 + (1::int)) d) ws []"
  have keys: "fst ` set ?d = set ws"
    by (simp add: keys_fold_bump)
  have old: "sorted_wrt (first_before (ws @ [w])) (map fst ?d)"
    using snoc.IH
    by (rule sorted_wrt_mono_rel [rotated]) (rule first_before_append)
  show ?case
  proof (cases "w \<in> set ws")
    case True
    with old keys show ?thesis
      by (simp add: map_fst_dict_set)
  next
    case False
    have "first_before (ws @ [w]) x w" if "x \<in> set ws" for x
      using that False by (intro exI [of _ ws] exI [of _ "[]"]) simp
    with old keys False show ?thesis
      by (simp add: map_fst_dict_set sorted_wrt_append)
  qed
qed

lemma first_split_unique:
  "xs @ y # ys = xs' @ y # ys' \<Longrightarrow> y \<notin> set xs \<Longrightarrow> y \<notin> set xs' \<Longrightarrow> xs = xs'"
proof (induction xs arbitrary: xs')
  case Nil
  then show ?case by (cases xs') auto
next
  case (Cons a xs)
  then show ?case by (cases xs') auto
qed

lemma first_before_filter:
  assumes "first_before (filter P ws) x y"
  shows "first_before ws x y"
proof -
  from assms obtain as cs where f: "filter P ws = as @ y # cs"
    and y: "y \<notin> set as" and x: "x \<in> set as"
    by blast
  have "y \<in> set (filter P ws)" by (simp add: f)
  then have "y \<in> set ws" and Py: "P y" by simp_all
  then obtain us vs where ws: "ws = us @ y # vs" and yus: "y \<notin> set us"
    by (meson split_list_first)
  from Py yus have "filter P ws = filter P us @ y # filter P vs" and "y \<notin> set (filter P us)"
    by (simp_all add: ws)
  with f y have "filter P us = as"
    by (metis first_split_unique)
  with x have "x \<in> set us" by auto
  with ws yus show ?thesis by blast
qed

lemma nth_split_two:
  assumes "i < j" and "j < length xs"
  shows "\<exists>as bs cs. xs = as @ xs ! i # bs @ xs ! j # cs"
proof -
  from assms have i: "i < length xs" by simp
  have xs: "xs = take i xs @ xs ! i # drop (Suc i) xs"
    using i by (rule id_take_nth_drop)
  from assms have j': "j - Suc i < length (drop (Suc i) xs)" by simp
  have "drop (Suc i) xs = take (j - Suc i) (drop (Suc i) xs) @ drop (Suc i) xs ! (j - Suc i)
          # drop (Suc (j - Suc i)) (drop (Suc i) xs)"
    using j' by (rule id_take_nth_drop)
  moreover have "drop (Suc i) xs ! (j - Suc i) = xs ! j"
    using assms by simp
  ultimately have "drop (Suc i) xs = take (j - Suc i) (drop (Suc i) xs) @ xs ! j
          # drop (Suc (j - Suc i)) (drop (Suc i) xs)"
    by simp
  with xs show ?thesis by metis
qed

lemma sort_key_keeps_order:
  assumes "sorted_wrt R xs" and "i < j" and "j < length (sort_key f xs)"
    and "f (sort_key f xs ! i) = f (sort_key f xs ! j)"
  shows "R (sort_key f xs ! i) (sort_key f xs ! j)"
proof -
  let ?s = "sort_key f xs"
  let ?P = "\<lambda>y. f y = f (?s ! j)"
  from nth_split_two [OF assms(2,3)] obtain as bs cs
    where s: "?s = as @ ?s ! i # bs @ ?s ! j # cs" by blast
  have "filter ?P ?s = filter ?P xs"
    by (rule sort_key_stable)
  moreover have "sorted_wrt R (filter ?P xs)"
    using assms(1) by (rule sorted_wrt_filter)
  ultimately have "sorted_wrt R (filter ?P ?s)" by simp
  then have "sorted_wrt R (filter ?P (as @ ?s ! i # bs @ ?s ! j # cs))"
    using s by simp
  then show ?thesis
    using assms(4) by (simp add: sorted_wrt_append)
qed

section \<open>The clock does not reach the report body\<close>

lemma lower_clock: "lower (rt\<lparr>clock := c\<rparr>) s = lower rt s"
  by (simp add: lower_def)

lemma title_clock: "title (rt\<lparr>clock := c\<rparr>) s = title rt s"
  by (simp add: title_def)

lemma split_clock: "split (rt\<lparr>clock := c\<rparr>) s = split rt s"
  by (simp add: split_def isspace_def)

lemma is_word_clock: "is_word (rt\<lparr>clock := c\<rparr>) = is_word rt"
  by (simp add: is_word_def fun_eq_iff)

lemma extract_keywords_clock: "extract_keywords (rt\<lparr>clock := c\<rparr>) s = extract_keywords rt s"
  by (simp add: extract_keywords_def findall_words_def is_word_clock)

lemma calculate_positivity_clock:
  "calculate_positivity (rt\<lparr>clock := c\<rparr>) s = calculate_positivity rt s"
  by (simp add: calculate_positivity_def subscript_positivo split_clock)

lemma analyze_dream_content_Inr:
  "\<exists>a. analyze_dream_content rt content st = Inr (a, st\<lparr>clock_reads := clock_reads st + 1\<rparr>)
       \<and> a_type a = detect_dream_type (lower rt content)
       \<and> a_emotions a = analyze_emotions (lower rt content)
       \<and> a_keywords a = extract_keywords rt (lower rt content)
       \<and> calculate_positivity rt (lower rt content) = Inr (a_positivity_score a)
       \<and> a_word_count a = int (length (split rt content))
       \<and> a_analysis_date a = isoformat rt (clock rt (clock_reads st))"
proof -
  obtain score where "calculate_positivity rt (lower rt content) = Inr score"
    using calculate_positivity_Inr by blast
  then show ?thesis
    by (simp add: analyze_dream_content_def Let_def)
qed

lemma analyze_dream_content_clock:
  "analyze_dream_content (rt\<lparr>clock := c\<rparr>) content st =
     (case analyze_dream_content rt content st of
        Inl e \<Rightarrow> Inl e
      | Inr (a, s) \<Rightarrow> Inr (a\<lparr>a_analysis_date := isoformat rt (c (clock_reads st))\<rparr>, s))"
  by (simp add: analyze_dream_content_def Let_def lower_clock split_clock extract_keywords_clock
        calculate_positivity_clock split: sum.splits)

lemma report_loop_clock:
  "report_loop (rt\<lparr>clock := c\<rparr>) es (tc, et, avg) st = report_loop rt es (tc, et, avg) st"
proof (induction es arbitrary: tc et avg st)
  case Nil
  show ?case by simp
next
  case (Cons e es)
  show ?case
    by (simp add: analyze_dream_content_clock Cons.IH Let_def split: sum.splits prod.splits)
qed

lemma types_lines_clock:
  "types_lines (rt\<lparr>clock := c\<rparr>) m tc report st = types_lines rt m tc report st"
proof (induction tc arbitrary: report st)
  case Nil
  show ?case by simp
next
  case (Cons p tc)
  obtain t n where p: "p = (t, n)" by (cases p)
  show ?case
    by (simp add: p title_clock Cons.IH Let_def split: sum.splits prod.splits)
qed

lemma emotions_lines_clock:
  "emotions_lines (rt\<lparr>clock := c\<rparr>) et report = emotions_lines rt et report"
proof (induction et arbitrary: report)
  case Nil
  show ?case by simp
next
  case (Cons p et)
  obtain e n where p: "p = (e, n)" by (cases p)
  show ?case
    by (simp add: p title_clock Cons.IH)
qed

lemma timestamp_line_clock: "timestamp_line (rt\<lparr>clock := c\<rparr>) t = timestamp_line rt t"
  by (simp add: timestamp_line_def)

section \<open>The report loop and the report\<close>

lemma report_loop_contents:
  assumes "map (\<lambda>e. dict_get e (ustr ''content'') []) es1
             = map (\<lambda>e. dict_get e (ustr ''content'') []) es2"
  shows "report_loop rt es1 (tc, et, avg) st = report_loop rt es2 (tc, et, avg) st"
  using assms
proof (induction es1 arbitrary: es2 tc et avg st)
  case Nil
  then show ?case by simp
next
  case (Cons e es1)
  from Cons.prems obtain e' es2' where es2: "es2 = e' # es2'"
    and c: "dict_get e (ustr ''content'') [] = dict_get e' (ustr ''content'') []"
    and rest: "map (\<lambda>e. dict_get e (ustr ''content'') []) es1
                 = map (\<lambda>e. dict_get e (ustr ''content'') []) es2'"
    by (cases es2) auto
  show ?case
    by (simp add: es2 c Cons.IH [OF rest] Let_def split: sum.splits prod.splits)
qed

lemma report_loop_Inr:
  "\<exists>acc'. report_loop rt es (tc, et, avg) st
            = Inr (acc', st\<lparr>clock_reads := clock_reads st + length es\<rparr>)"
proof (induction es arbitrary: tc et avg st)
  case Nil
  show ?case by simp
next
  case (Cons e es)
  obtain a where a: "analyze_dream_content rt (dict_get e (ustr ''content'') []) st
                       = Inr (a, st\<lparr>clock_reads := clock_reads st + 1\<rparr>)"
    using analyze_dream_content_Inr by blast
  show ?case
    using Cons.IH [of _ _ _ "st\<lparr>clock_reads := clock_reads st + 1\<rparr>"]
    by (simp add: a Let_def)
qed

lemma report_loop_types_count:
  assumes "report_loop rt es (tc, et, avg) st = Inr ((tc', et', avg'), st')"
  shows "tc' = fold (\<lambda>w d. dict_set w (dict_get d w 0 + (1::int)) d)
                 (map (\<lambda>e. detect_dream_type (lower rt (dict_get e (ustr ''content'') []))) es) tc"
  using assms
proof (induction es arbitrary: tc et avg st)
  case Nil
  then show ?case by simp
next
  case (Cons e es)
  obtain a where a: "analyze_dream_content rt (dict_get e (ustr ''content'') []) st
                       = Inr (a, st\<lparr>clock_reads := clock_reads st + 1\<rparr>)"
    and t: "a_type a = detect_dream_type (lower rt (dict_get e (ustr ''content'') []))"
    using analyze_dream_content_Inr by blast
  from Cons.prems have "report_loop rt es
      (dict_set (a_type a) (dict_get tc (a_type a) 0 + 1) tc,
       fold (\<lambda>(emotion, score) total. dict_set emotion (dict_get total emotion 0 + score) total)
         (a_emotions a) et,
       avg + a_positivity_score a)
      (st\<lparr>clock_reads := clock_reads st + 1\<rparr>) = Inr ((tc', et', avg'), st')"
    by (simp add: a Let_def)
  from Cons.IH [OF this] show ?case
    by (simp add: t)
qed

lemma types_lines_Inr:
  assumes "m \<noteq> 0"
  shows "\<exists>report'. types_lines rt m tc report st
           = Inr (report', st\<lparr>divisions := divisions st + length tc\<rparr>)"
proof (induction tc arbitrary: report st)
  case Nil
  show ?case by simp
next
  case (Cons p tc)
  obtain t n where p: "p = (t, n)" by (cases p)
  show ?case
    using assms Cons.IH [of _ "st\<lparr>divisions := divisions st + 1\<rparr>"]
    by (simp add: p truediv_def Let_def)
qed

lemma sum_list_percentages:
  fixes c :: rat
  shows "(\<Sum>(t, n) \<leftarrow> tc. of_int n / c * 100) = of_int (sum_list (map snd tc)) / c * 100"
  by (induction tc) (auto simp: add_divide_distrib distrib_right)

lemma generate_dream_report_contents:
  assumes "map (\<lambda>e. dict_get e (ustr ''content'') []) es1
             = map (\<lambda>e. dict_get e (ustr ''content'') []) es2"
  shows "generate_dream_report rt es1 st = generate_dream_report rt es2 st"
proof -
  from assms have "length es1 = length es2"
    by (rule map_eq_imp_length_eq)
  moreover from this have "es1 = [] \<longleftrightarrow> es2 = []" by auto
  ultimately show ?thesis
    unfolding generate_dream_report_def
    by (simp only: report_loop_contents [OF assms])
qed

lemma generate_dream_report_Inr:
  assumes "es \<noteq> []"
  shows "\<exists>body k.
           (\<forall>c. generate_dream_report (rt\<lparr>clock := c\<rparr>) es st =
              Inr (body @ timestamp_line rt (c (clock_reads st + length es)),
                   st\<lparr>clock_reads := clock_reads st + length es + 1,
                      divisions := divisions st + 1 + k\<rparr>))"
proof -
  obtain acc' where "report_loop rt es ([], [], 0) st
                       = Inr (acc', st\<lparr>clock_reads := clock_reads st + length es\<rparr>)"
    using report_loop_Inr by blast
  then obtain tc et avg where loop: "report_loop rt es ([], [], 0) st
      = Inr ((tc, et, avg), st\<lparr>clock_reads := clock_reads st + length es\<rparr>)"
    by (cases acc') auto
  let ?st1 = "st\<lparr>clock_reads := clock_reads st + length es\<rparr>"
  from assms have pos: "int (length es) > 0" by simp
  then have nz: "int (length es) \<noteq> 0" by simp
  obtain q where q: "truediv avg (int (length es)) ?st1
                       = Inr (q, ?st1\<lparr>divisions := divisions ?st1 + 1\<rparr>)"
    using nz by (simp add: truediv_def)
  let ?st2 = "?st1\<lparr>divisions := divisions ?st1 + 1\<rparr>"
  obtain typed where typed: "types_lines rt (int (length es)) tc
        (report_header (int (length es)) (FloatNum q)) ?st2
      = Inr (typed, ?st2\<lparr>divisions := divisions ?st2 + length tc\<rparr>)"
    using types_lines_Inr [OF nz] by blast
  let ?body = "emotions_lines rt (sorted_by_value_reverse et)
                 (typed @ [10] @ ustr ''## '' @ [128173] @ ustr '' Emo''
                    @ [231, 245] @ ustr ''es Predominantes'' @ [10])"
  have "generate_dream_report (rt\<lparr>clock := c\<rparr>) es st =
          Inr (?body @ timestamp_line rt (c (clock_reads st + length es)),
               st\<lparr>clock_reads := clock_reads st + length es + 1,
                  divisions := divisions st + 1 + length tc\<rparr>)" for c
    using assms pos
    by (simp add: generate_dream_report_def Let_def report_loop_clock loop q types_lines_clock
          typed [simplified] emotions_lines_clock timestamp_line_clock)
  then show ?thesis by blast
qed

lemma generate_dream_report_total:
  "\<exists>report st'. generate_dream_report rt es st = Inr (report, st')"
proof (cases "es = []")
  case True
  then show ?thesis by (simp add: generate_dream_report_def)
next
  case False
  from generate_dream_report_Inr [OF False, of rt st] obtain body k
    where "\<forall>c. generate_dream_report (rt\<lparr>clock := c\<rparr>) es st =
              Inr (body @ timestamp_line rt (c (clock_reads st + length es)),
                   st\<lparr>clock_reads := clock_reads st + length es + 1,
                      divisions := divisions st + 1 + k\<rparr>)"
    by blast
  then have "generate_dream_report (rt\<lparr>clock := clock rt\<rparr>) es st =
              Inr (body @ timestamp_line rt (clock rt (clock_reads st + length es)),
                   st\<lparr>clock_reads := clock_reads st + length es + 1,
                      divisions := divisions st + 1 + k\<rparr>)"
    by blast
  then show ?thesis by simp
qed

lemma nonempty_report_counters:
  assumes "es \<noteq> []"
  shows "\<exists>report st'. generate_dream_report rt es st = Inr (report, st')
           \<and> clock_reads st' = clock_reads st + length es + 1
           \<and> divisions st' > divisions st"
proof -
  from generate_dream_report_Inr [OF assms, of rt st] obtain body k
    where "\<forall>c. generate_dream_report (rt\<lparr>clock := c\<rparr>) es st =
              Inr (body @ timestamp_line rt (c (clock_reads st + length es)),
                   st\<lparr>clock_reads := clock_reads st + length es + 1,
                      divisions := divisions st + 1 + k\<rparr>)"
    by blast
  then have "generate_dream_report (rt\<lparr>clock := clock rt\<rparr>) es st =
              Inr (body @ timestamp_line rt (clock rt (clock_reads st + length es)),
                   st\<lparr>clock_reads := clock_reads st + length es + 1,
                      divisions := divisions st + 1 + k\<rparr>)"
    by blast
  then show ?thesis by simp
qed

lemma analyze_empty:
  "analyze_dream_content rt [] st =
     Inr (\<lparr> a_type = ustr ''indefinido'', a_emotions = [], a_keywords = [],
            a_positivity_score = 50, a_word_count = 0,
            a_analysis_date = isoformat rt (clock rt (clock_reads st)) \<rparr>,
          st\<lparr>clock_reads := clock_reads st + 1\<rparr>)"
  by (simp add: analyze_dream_content_def Let_def lower_def detect_dream_type_def
        keyword_hits_def future_keywords_def night_keywords_def analyze_emotions_def
        emotions_def extract_keywords_def findall_words_def count_frequency_def
        sorted_by_value_reverse_def calculate_positivity_def subscript_def
        negative_indicators_def split_def ustr_def)

section \<open>The example text and the sample, evaluated\<close>

lemma hits_set: "{k \<in> set ks. sublist k c} = set (filter (\<lambda>k. py_in k c) ks)"
  by (auto simp: py_in_iff_sublist)

lemma example_lower:
  "lower rt (ustr ''Sonhei que estava voando sobre uma cidade do futuro'')
     = ustr ''sonhei que estava voando sobre uma cidade do futuro''"
  by (simp add: lower_def lower_cp_def ustr_def)

lemma example_future:
  "filter (\<lambda>k. py_in k (ustr ''sonhei que estava voando sobre uma cidade do futuro'')) future_keywords
     = [ustr ''futuro'']"
  by (simp add: future_keywords_def ustr_def)

lemma example_night:
  "filter (\<lambda>k. py_in k (ustr ''sonhei que estava voando sobre uma cidade do futuro'')) night_keywords
     = [ustr ''sonhei'']"
  by (simp add: night_keywords_def ustr_def)

lemma example_raw:
  "detect_dream_type (ustr ''Sonhei que estava voando sobre uma cidade do futuro'') = ustr ''futuro''"
  by (simp add: detect_dream_type_def keyword_hits_def future_keywords_def night_keywords_def
        ustr_def)

lemma sample_loop:
  "report_loop rt sample_dreams ([], [], 0) st =
     Inr (([(ustr ''indefinido'', 2), (ustr ''noturno'', 1)],
           [(ustr ''misterioso'', 1), (ustr ''positivo'', 1)], 155),
          st\<lparr>clock_reads := clock_reads st + 3\<rparr>)"
  by (simp add: sample_dreams_def analyze_dream_content_def Let_def dict_get_def
        lower_def lower_cp_def detect_dream_type_def keyword_hits_def future_keywords_def
        night_keywords_def analyze_emotions_def emotions_def calculate_positivity_def
        subscript_def negative_indicators_def split_def isspace_def ustr_def)

lemma sample_avg:
  "truediv 155 3 st = Inr (PyFloat False 7271436898358613 (- 47), st\<lparr>divisions := divisions st + 1\<rparr>)"
  by (simp add: truediv_def nearest_double_def scaled_quotient_def round_half_even_def Let_def)

lemma float_hundred: "int_to_float 100 = PyFloat False 7036874417766400 (- 46)"
  by (simp add: int_to_float_def nearest_double_def scaled_quotient_def round_half_even_def Let_def)

lemma two_thirds:
  "truediv 2 3 st = Inr (PyFloat False 6004799503160661 (- 53), st\<lparr>divisions := divisions st + 1\<rparr>)"
  by (simp add: truediv_def nearest_double_def scaled_quotient_def round_half_even_def Let_def)

lemma one_third:
  "truediv 1 3 st = Inr (PyFloat False 6004799503160661 (- 54), st\<lparr>divisions := divisions st + 1\<rparr>)"
  by (simp add: truediv_def nearest_double_def scaled_quotient_def round_half_even_def Let_def)

lemma pct_two_thirds:
  "float_mul (PyFloat False 6004799503160661 (- 53)) (PyFloat False 7036874417766400 (- 46))
     = PyFloat False 4691249611844266 (- 46)"
  by (simp add: float_mul_def dyadic_fraction_def nearest_double_def scaled_quotient_def
        round_half_even_def Let_def)

lemma pct_one_third:
  "float_mul (PyFloat False 6004799503160661 (- 54)) (PyFloat False 7036874417766400 (- 46))
     = PyFloat False 4691249611844266 (- 47)"
  by (simp add: float_mul_def dyadic_fraction_def nearest_double_def scaled_quotient_def
        round_half_even_def Let_def)

lemma fmt_avg: "format_1f (FloatNum (PyFloat False 7271436898358613 (- 47))) = ustr ''51.7''"
  by (simp add: format_1f_def dyadic_fraction_def round_half_even_def Let_def ustr_def)

lemma fmt_two_thirds: "format_1f (FloatNum (PyFloat False 4691249611844266 (- 46))) = ustr ''66.7''"
  by (simp add: format_1f_def dyadic_fraction_def round_half_even_def Let_def ustr_def)

lemma fmt_one_third: "format_1f (FloatNum (PyFloat False 4691249611844266 (- 47))) = ustr ''33.3''"
  by (simp add: format_1f_def dyadic_fraction_def round_half_even_def Let_def ustr_def)

section \<open>Claims\<close>

text \<open>
  C1. For every text, \<open>detect_dream_type\<close> returns exactly one of the three labels
  \<open>futuro\<close> (future), \<open>noturno\<close> (nocturnal), \<open>indefinido\<close> (undefined), which are pairwise
  different. With \<open>f\<close> the number of distinct future keywords that occur in the content as
  substrings (\<open>sublist k content\<close>: the content is \<open>p @ k @ s\<close> for some \<open>p\<close>, \<open>s\<close>) and \<open>n\<close>
  the number of distinct night keywords that do, the label is \<open>futuro\<close> when \<open>f > n\<close>,
  \<open>noturno\<close> when \<open>n > f\<close>, and \<open>indefinido\<close> on every tie, the tie 0-0 included.
\<close>

theorem detect_dream_type_by_counts:
  "detect_dream_type content =
     (if card {k \<in> set future_keywords. sublist k content}
           > card {k \<in> set night_keywords. sublist k content} then ustr ''futuro''
      else if card {k \<in> set night_keywords. sublist k content}
           > card {k \<in> set future_keywords. sublist k content} then ustr ''noturno''
      else ustr ''indefinido'')
   \<and> detect_dream_type content \<in> {ustr ''futuro'', ustr ''noturno'', ustr ''indefinido''}
   \<and> ustr ''futuro'' \<noteq> ustr ''noturno'' \<and> ustr ''futuro'' \<noteq> ustr ''indefinido''
   \<and> ustr ''noturno'' \<noteq> ustr ''indefinido''"
proof -
  have f: "keyword_hits future_keywords content
             = int (card {k \<in> set future_keywords. sublist k content})"
    by (rule keyword_hits_card [OF distinct_future_keywords])
  have n: "keyword_hits night_keywords content
             = int (card {k \<in> set night_keywords. sublist k content})"
    by (rule keyword_hits_card [OF distinct_night_keywords])
  have eq: "detect_dream_type content =
     (if card {k \<in> set future_keywords. sublist k content}
           > card {k \<in> set night_keywords. sublist k content} then ustr ''futuro''
      else if card {k \<in> set night_keywords. sublist k content}
           > card {k \<in> set future_keywords. sublist k content} then ustr ''noturno''
      else ustr ''indefinido'')"
    unfolding detect_dream_type_def Let_def f n by simp
  have mem: "detect_dream_type content \<in> {ustr ''futuro'', ustr ''noturno'', ustr ''indefinido''}"
    unfolding detect_dream_type_def Let_def by simp
  have ne: "ustr ''futuro'' \<noteq> ustr ''noturno'' \<and> ustr ''futuro'' \<noteq> ustr ''indefinido''
              \<and> ustr ''noturno'' \<noteq> ustr ''indefinido''"
    by (simp add: ustr_def)
  from eq mem ne show ?thesis by blast
qed

text \<open>
  C2, as amended. The example text is \<open>Sonhei que estava voando sobre uma cidade do futuro\<close>.
  \<open>analyze_dream_content\<close> lowers it before it counts, and the lowered text begins with
  \<open>sonhei\<close>, which is a night keyword. So the analysis finds exactly one future keyword
  (\<open>futuro\<close>) and exactly one night keyword (\<open>sonhei\<close>), the counts tie, and the type of
  the entry is \<open>indefinido\<close> (undefined). Only \<open>detect_dream_type\<close> applied to the text as
  written, capital letter and all, answers \<open>futuro\<close>.
\<close>

theorem dream_example_type:
  "{k \<in> set future_keywords.
      sublist k (lower rt (ustr ''Sonhei que estava voando sobre uma cidade do futuro''))}
     = {ustr ''futuro''}
   \<and> {k \<in> set night_keywords.
      sublist k (lower rt (ustr ''Sonhei que estava voando sobre uma cidade do futuro''))}
     = {ustr ''sonhei''}
   \<and> keyword_hits future_keywords
        (lower rt (ustr ''Sonhei que estava voando sobre uma cidade do futuro'')) = 1
   \<and> keyword_hits night_keywords
        (lower rt (ustr ''Sonhei que estava voando sobre uma cidade do futuro'')) = 1
   \<and> (\<exists>a. analyze_dream_content rt
               (ustr ''Sonhei que estava voando sobre uma cidade do futuro'') st
             = Inr (a, st\<lparr>clock_reads := clock_reads st + 1\<rparr>)
          \<and> a_type a = ustr ''indefinido'')
   \<and> detect_dream_type (ustr ''Sonhei que estava voando sobre uma cidade do futuro'')
       = ustr ''futuro''"
proof -
  let ?c = "ustr ''Sonhei que estava voando sobre uma cidade do futuro''"
  have f: "{k \<in> set future_keywords. sublist k (lower rt ?c)} = {ustr ''futuro''}"
    by (simp add: hits_set example_lower example_future)
  have n: "{k \<in> set night_keywords. sublist k (lower rt ?c)} = {ustr ''sonhei''}"
    by (simp add: hits_set example_lower example_night)
  have fh: "keyword_hits future_keywords (lower rt ?c) = 1"
    by (simp add: keyword_hits_length example_lower example_future)
  have nh: "keyword_hits night_keywords (lower rt ?c) = 1"
    by (simp add: keyword_hits_length example_lower example_night)
  have t: "detect_dream_type (lower rt ?c) = ustr ''indefinido''"
    by (simp add: detect_dream_type_def fh nh)
  obtain a where "analyze_dream_content rt ?c st = Inr (a, st\<lparr>clock_reads := clock_reads st + 1\<rparr>)"
    and "a_type a = detect_dream_type (lower rt ?c)"
    using analyze_dream_content_Inr by blast
  with t have a: "\<exists>a. analyze_dream_content rt ?c st
                        = Inr (a, st\<lparr>clock_reads := clock_reads st + 1\<rparr>)
                      \<and> a_type a = ustr ''indefinido''"
    by auto
  from f n fh nh a example_raw show ?thesis by blast
qed

text \<open>
  The claim C2 as the specification states it (one future hit, no night hit, type
  \<open>futuro\<close>) fails on the example text.
\<close>

theorem dream_example_counterexample:
  "\<not> (keyword_hits future_keywords
         (lower latin1_runtime (ustr ''Sonhei que estava voando sobre uma cidade do futuro'')) = 1
      \<and> keyword_hits night_keywords
         (lower latin1_runtime (ustr ''Sonhei que estava voando sobre uma cidade do futuro'')) = 0
      \<and> map_sum id (a_type \<circ> fst)
           (analyze_dream_content latin1_runtime
              (ustr ''Sonhei que estava voando sobre uma cidade do futuro'') start_trace)
          = Inr (ustr ''futuro''))"
  by (simp add: keyword_hits_length example_lower example_night)

text \<open>
  C3, as amended. For the three entries of \<open>sample_dreams\<close> the loop of
  \<open>generate_dream_report\<close> ends with \<open>types_count\<close> = \<open>{indefinido: 2, noturno: 1}\<close>: the
  first entry ties one future keyword with one night keyword, the third has neither. No
  entry is of type \<open>futuro\<close>. The report renders \<open>66.7%\<close> for \<open>indefinido\<close> and \<open>33.3%\<close> for
  \<open>noturno\<close>; the whole report is the text below, up to the time in its last line.
\<close>

theorem sample_report_types:
  "report_loop rt sample_dreams ([], [], 0) st =
     Inr (([(ustr ''indefinido'', 2), (ustr ''noturno'', 1)],
           [(ustr ''misterioso'', 1), (ustr ''positivo'', 1)], 155),
          st\<lparr>clock_reads := clock_reads st + 3\<rparr>)
   \<and> generate_dream_report rt sample_dreams st =
     Inr ([10] @ ustr ''# '' @ [127769] @ ustr '' RELAT'' @ [211] @ ustr ''RIO DE AN'' @ [193]
            @ ustr ''LISE DOS SONHOS'' @ [10]
          @ [10]
          @ ustr ''## '' @ [128202] @ ustr '' Estat'' @ [237] @ ustr ''sticas Gerais'' @ [10]
          @ ustr ''- **Total de sonhos analisados:** 3'' @ [10]
          @ ustr ''- **Score m'' @ [233] @ ustr ''dio de positividade:** 51.7/100'' @ [10]
          @ [10]
          @ ustr ''## '' @ [127917] @ ustr '' Tipos de Sonhos'' @ [10]
          @ ustr ''- **Indefinido:** 2 sonhos (66.7%)'' @ [10]
          @ ustr ''- **Noturno:** 1 sonhos (33.3%)'' @ [10]
          @ [10]
          @ ustr ''## '' @ [128173] @ ustr '' Emo'' @ [231, 245] @ ustr ''es Predominantes'' @ [10]
          @ ustr ''- **Misterioso:** 1 ocorr'' @ [234] @ ustr ''ncias'' @ [10]
          @ ustr ''- **Positivo:** 1 ocorr'' @ [234] @ ustr ''ncias'' @ [10]
          @ timestamp_line rt (clock rt (clock_reads st + 3)),
          st\<lparr>clock_reads := clock_reads st + 4, divisions := divisions st + 3\<rparr>)"
proof -
  have ne: "sample_dreams \<noteq> []" and len: "length sample_dreams = 3"
    by (simp_all add: sample_dreams_def)
  have titles: "title rt (ustr ''indefinido'') = ustr ''Indefinido''"
    "title rt (ustr ''noturno'') = ustr ''Noturno''"
    "title rt (ustr ''misterioso'') = ustr ''Misterioso''"
    "title rt (ustr ''positivo'') = ustr ''Positivo''"
    by (simp_all add: title_def ustr_def)
  have numbers: "str_int 1 = ustr ''1''" "str_int 2 = ustr ''2''" "str_int 3 = ustr ''3''"
    by (simp_all add: str_int_def ustr_def)
  have sorted: "sorted_by_value_reverse [(ustr ''misterioso'', 1), (ustr ''positivo'', 1)]
                  = [(ustr ''misterioso'', 1), (ustr ''positivo'', 1)]"
    by (simp add: sorted_by_value_reverse_def)
  have "generate_dream_report rt sample_dreams st =
     Inr ([10] @ ustr ''# '' @ [127769] @ ustr '' RELAT'' @ [211] @ ustr ''RIO DE AN'' @ [193]
            @ ustr ''LISE DOS SONHOS'' @ [10]
          @ [10]
          @ ustr ''## '' @ [128202] @ ustr '' Estat'' @ [237] @ ustr ''sticas Gerais'' @ [10]
          @ ustr ''- **Total de sonhos analisados:** 3'' @ [10]
          @ ustr ''- **Score m'' @ [233] @ ustr ''dio de positividade:** 51.7/100'' @ [10]
          @ [10]
          @ ustr ''## '' @ [127917] @ ustr '' Tipos de Sonhos'' @ [10]
          @ ustr ''- **Indefinido:** 2 sonhos (66.7%)'' @ [10]
          @ ustr ''- **Noturno:** 1 sonhos (33.3%)'' @ [10]
          @ [10]
          @ ustr ''## '' @ [128173] @ ustr '' Emo'' @ [231, 245] @ ustr ''es Predominantes'' @ [10]
          @ ustr ''- **Misterioso:** 1 ocorr'' @ [234] @ ustr ''ncias'' @ [10]
          @ ustr ''- **Positivo:** 1 ocorr'' @ [234] @ ustr ''ncias'' @ [10]
          @ timestamp_line rt (clock rt (clock_reads st + 3)),
          st\<lparr>clock_reads := clock_reads st + 4, divisions := divisions st + 3\<rparr>)"
    unfolding generate_dream_report_def
    by (simp add: ne len sample_loop sample_avg two_thirds one_third float_hundred pct_two_thirds
          pct_one_third fmt_avg fmt_two_thirds fmt_one_third report_header_def titles numbers
          sorted)
       (simp add: ustr_def)
  with sample_loop show ?thesis by blast
qed

text \<open>
  The claim C3 as the specification states it gives the type \<open>futuro\<close> the count 2; in the
  \<open>types_count\<close> of the sample that key has no such count.
\<close>

theorem sample_types_counterexample:
  "map_sum id (\<lambda>r. map_of (fst (fst r)) (ustr ''futuro''))
       (report_loop latin1_runtime sample_dreams ([], [], 0) start_trace)
     \<noteq> Inr (Some 2)"
  by (simp add: sample_loop ustr_def)

text \<open>
  C4. With \<open>positive_words\<close> the keywords of the category \<open>positivo\<close>, the positivity score
  of every text is \<open>50 + 10 * p - 5 * n\<close> clamped to the range from 0 to 100, where \<open>p\<close> is the
  number of positive keywords and \<open>n\<close> the number of negative indicators that occur in the
  text as substrings. It is an int between 0 and 100, no \<open>KeyError\<close> is raised, and
  for a text with no word (\<open>split\<close> returns the empty list) it is exactly 50.
\<close>

theorem calculate_positivity_score:
  assumes "map_of emotions (ustr ''positivo'') = Some positive_words"
  shows "calculate_positivity rt content =
           Inr (max 0 (min 100
             (50 + 10 * int (card {k \<in> set positive_words. sublist k content})
                 - 5 * int (card {k \<in> set negative_indicators. sublist k content}))))
         \<and> (\<exists>score. calculate_positivity rt content = Inr score \<and> 0 \<le> score \<and> score \<le> 100)
         \<and> (split rt content = [] \<longrightarrow> calculate_positivity rt content = Inr 50)"
proof -
  have member: "(ustr ''positivo'', positive_words) \<in> set emotions"
    using assms by (rule map_of_SomeD)
  have sub: "subscript emotions (ustr ''positivo'') = Inr positive_words"
    using assms by (simp add: subscript_def)
  have p: "keyword_hits positive_words content
             = int (card {k \<in> set positive_words. sublist k content})"
    by (rule keyword_hits_card [OF distinct_emotion_keywords [OF member]])
  have n: "keyword_hits negative_indicators content
             = int (card {k \<in> set negative_indicators. sublist k content})"
    by (rule keyword_hits_card [OF distinct_negative_indicators])
  have blank: "calculate_positivity rt content = Inr 50
               \<and> keyword_hits positive_words content = 0
               \<and> keyword_hits negative_indicators content = 0"
    if "split rt content = []"
  proof -
    from that have all: "\<forall>c\<in>set content. isspace rt c"
      by (simp add: split_Nil_iff)
    have "keyword_hits positive_words content = 0"
      using all emotion_keyword_not_blank [OF member] by (intro keyword_hits_blank) auto
    moreover have "keyword_hits negative_indicators content = 0"
      using all negative_indicator_not_blank by (intro keyword_hits_blank) auto
    moreover have "calculate_positivity rt content = Inr 50"
      using that by (simp add: calculate_positivity_def sub)
    ultimately show ?thesis by simp
  qed
  have formula: "calculate_positivity rt content =
           Inr (max 0 (min 100
             (50 + 10 * int (card {k \<in> set positive_words. sublist k content})
                 - 5 * int (card {k \<in> set negative_indicators. sublist k content}))))"
  proof (cases "split rt content = []")
    case True
    from blank [OF True] have "calculate_positivity rt content = Inr 50"
      and "int (card {k \<in> set positive_words. sublist k content}) = 0"
      and "int (card {k \<in> set negative_indicators. sublist k content}) = 0"
      by (simp_all only: p n)
    then show ?thesis
      by (simp only:) simp
  next
    case False
    then show ?thesis
      by (simp add: calculate_positivity_def sub Let_def p n mult.commute)
  qed
  from formula have range: "\<exists>score. calculate_positivity rt content = Inr score \<and> 0 \<le> score \<and> score \<le> 100"
    by simp
  from formula range blank show ?thesis by blast
qed

theorem calculate_positivity_score_witness:
  "map_of emotions (ustr ''positivo'')
     = Some [ustr ''feliz'', ustr ''alegre'', ustr ''esperan'' @ [231] @ ustr ''a'', ustr ''amor'',
             ustr ''paz'', ustr ''luz'', ustr ''voar'', ustr ''liberdade'']
   \<and> split latin1_runtime (ustr ''  '') = []
   \<and> calculate_positivity latin1_runtime (ustr ''  '') = Inr 50"
proof -
  have s: "split latin1_runtime (ustr ''  '') = []"
    by (simp add: split_def isspace_def ustr_def)
  from calculate_positivity_score [OF map_of_positivo, of latin1_runtime "ustr ''  ''"] s
  have "calculate_positivity latin1_runtime (ustr ''  '') = Inr 50"
    by blast
  with s map_of_positivo show ?thesis by simp
qed

text \<open>
  C5. For every text \<open>extract_keywords\<close> returns at most 5 pairs of a token and its
  frequency, with pairwise different tokens. Every token is longer than 4 code points, and
  its frequency is the number of times it occurs among the tokens of the text, which is
  positive. The frequencies do not rise along the list. Of two returned tokens with the
  same frequency, the earlier one in the list occurs in the token sequence of the text
  before the first occurrence of the later one.
\<close>

theorem extract_keywords_top_five:
  "length (extract_keywords rt content) \<le> 5
   \<and> distinct (map fst (extract_keywords rt content))
   \<and> (\<forall>(word, freq) \<in> set (extract_keywords rt content).
         length word > 4 \<and> freq > 0
         \<and> freq = int (count_list (findall_words rt content) word))
   \<and> (\<forall>i j. i < j \<and> j < length (extract_keywords rt content) \<longrightarrow>
         snd (extract_keywords rt content ! j) \<le> snd (extract_keywords rt content ! i))
   \<and> (\<forall>i j. i < j \<and> j < length (extract_keywords rt content)
           \<and> snd (extract_keywords rt content ! i) = snd (extract_keywords rt content ! j) \<longrightarrow>
         first_before (findall_words rt content)
           (fst (extract_keywords rt content ! i)) (fst (extract_keywords rt content ! j)))"
proof -
  define ws where "ws = findall_words rt content"
  define kws where "kws = filter (\<lambda>word. length word > 4) ws"
  define wf where "wf = count_frequency kws"
  define s where "s = sort_key (\<lambda>x. - snd x) wf"
  define r where "r = extract_keywords rt content"
  have r: "r = take 5 s"
    by (simp add: r_def extract_keywords_def sorted_by_value_reverse_def s_def wf_def kws_def
          ws_def)
  have keys: "fst ` set wf = set kws"
    by (simp add: wf_def count_frequency_def keys_fold_bump)
  have dist: "distinct (map fst wf)"
    by (simp add: wf_def count_frequency_def distinct_fold_bump)
  have freq: "dict_get wf k 0 = int (count_list kws k)" for k
  proof -
    have "dict_get ([] :: (pystr \<times> int) list) k 0 = 0"
      by (simp add: dict_get_def)
    then show ?thesis
      unfolding wf_def count_frequency_def dict_get_fold_bump by simp
  qed
  have nth: "r ! i = s ! i" and len: "i < length s" if "i < length r" for i
    using that by (simp_all add: r)
  have 1: "length r \<le> 5"
    by (simp add: r)
  have "distinct (map fst s)"
    using dist by (simp add: s_def distinct_map)
  then have 2: "distinct (map fst r)"
    by (simp add: r take_map [symmetric] distinct_take)
  have 3: "length word > 4 \<and> freq > 0 \<and> freq = int (count_list ws word)"
    if "(word, freq) \<in> set r" for word freq
  proof -
    from that have mem: "(word, freq) \<in> set wf"
      by (auto simp: r s_def dest: in_set_takeD)
    then have "word \<in> fst ` set wf" by force
    then have k: "word \<in> set kws" by (simp add: keys)
    then have long: "length word > 4" by (simp add: kws_def)
    from dict_get_member [OF dist mem, of 0] have "freq = int (count_list kws word)"
      by (simp add: freq)
    moreover have "count_list kws word = count_list ws word"
      unfolding kws_def using long by (rule count_list_filter)
    moreover have "count_list kws word > 0"
      using k count_list_0_iff [of kws word] by arith
    ultimately show ?thesis using long by simp
  qed
  have "sorted (map (\<lambda>x. - snd x) s)"
    unfolding s_def by (rule sorted_sort_key)
  then have mono: "sorted_wrt (\<lambda>x y. - snd x \<le> - snd y) s"
    by (simp add: sorted_map)
  have 4: "snd (r ! j) \<le> snd (r ! i)" if "i < j" and "j < length r" for i j
  proof -
    from that have "i < length r" by simp
    with that mono show ?thesis
      using sorted_wrt_nth_less [OF mono that(1) len [OF that(2)]]
      by (simp add: nth)
  qed
  have "sorted_wrt (first_before kws) (map fst wf)"
    unfolding wf_def count_frequency_def by (rule first_order_fold_bump)
  then have order: "sorted_wrt (\<lambda>a b. first_before kws (fst a) (fst b)) wf"
    by (simp add: sorted_wrt_map)
  have 5: "first_before ws (fst (r ! i)) (fst (r ! j))"
    if "i < j" and "j < length r" and "snd (r ! i) = snd (r ! j)" for i j
  proof -
    from that have i: "i < length r" by simp
    have j: "j < length (sort_key (\<lambda>x. - snd x) wf)"
      using len [OF that(2)] by (simp add: s_def)
    have eq: "- snd (sort_key (\<lambda>x. - snd x) wf ! i) = - snd (sort_key (\<lambda>x. - snd x) wf ! j)"
      using that(3) nth [OF i] nth [OF that(2)] by (simp add: s_def)
    have "first_before kws (fst (s ! i)) (fst (s ! j))"
      unfolding s_def by (rule sort_key_keeps_order [OF order that(1) j eq])
    then have "first_before ws (fst (s ! i)) (fst (s ! j))"
      unfolding kws_def by (rule first_before_filter)
    then show ?thesis
      by (simp add: nth [OF i] nth [OF that(2)])
  qed
  from 1 2 3 4 5 show ?thesis
    unfolding r_def ws_def by blast
qed

theorem extract_keywords_top_five_witness:
  "extract_keywords latin1_runtime (ustr ''casas verdes, casas verdes; azuis e sol'')
     = [(ustr ''casas'', 2), (ustr ''verdes'', 2), (ustr ''azuis'', 1)]
   \<and> first_before
        (findall_words latin1_runtime (ustr ''casas verdes, casas verdes; azuis e sol''))
        (ustr ''casas'') (ustr ''verdes'')"
proof -
  let ?c = "ustr ''casas verdes, casas verdes; azuis e sol''"
  have e: "extract_keywords latin1_runtime ?c
             = [(ustr ''casas'', 2), (ustr ''verdes'', 2), (ustr ''azuis'', 1)]"
    by (simp add: extract_keywords_def findall_words_def is_word_def latin1_runtime_def
          count_frequency_def dict_get_def sorted_by_value_reverse_def ustr_def)
  from extract_keywords_top_five [of latin1_runtime ?c]
  have "\<forall>i j. i < j \<and> j < length (extract_keywords latin1_runtime ?c)
           \<and> snd (extract_keywords latin1_runtime ?c ! i) = snd (extract_keywords latin1_runtime ?c ! j) \<longrightarrow>
         first_before (findall_words latin1_runtime ?c)
           (fst (extract_keywords latin1_runtime ?c ! i)) (fst (extract_keywords latin1_runtime ?c ! j))"
    by blast
  then have "0 < (1::nat) \<and> 1 < length (extract_keywords latin1_runtime ?c)
           \<and> snd (extract_keywords latin1_runtime ?c ! 0) = snd (extract_keywords latin1_runtime ?c ! 1) \<longrightarrow>
         first_before (findall_words latin1_runtime ?c)
           (fst (extract_keywords latin1_runtime ?c ! 0)) (fst (extract_keywords latin1_runtime ?c ! 1))"
    by blast
  then have "first_before (findall_words latin1_runtime ?c) (ustr ''casas'') (ustr ''verdes'')"
    unfolding e by simp
  with e show ?thesis by simp
qed

text \<open>
  C6. For every text and each of the four categories of \<open>emotions\<close>, the mapping returned
  by \<open>analyze_emotions\<close> holds the category if and only if the number of its keywords that
  occur in the text as substrings is positive, and then the stored count is that number.
  Every key of the mapping is one of the categories, each occurs once, and every stored
  count is positive.
\<close>

theorem analyze_emotions_positive_counts:
  "(\<forall>(emotion, kws) \<in> set emotions.
      map_of (analyze_emotions content) emotion
        = (if card {k \<in> set kws. sublist k content} > 0
           then Some (int (card {k \<in> set kws. sublist k content})) else None))
   \<and> (\<forall>(emotion, score) \<in> set (analyze_emotions content).
        score > 0 \<and> emotion \<in> fst ` set emotions)
   \<and> distinct (map fst (analyze_emotions content))"
proof -
  have hits: "keyword_hits kws content = int (card {k \<in> set kws. sublist k content})"
    if "(emotion, kws) \<in> set emotions" for emotion kws
    by (rule keyword_hits_card [OF distinct_emotion_keywords [OF that]])
  have a: "map_of (analyze_emotions content) emotion
        = (if card {k \<in> set kws. sublist k content} > 0
           then Some (int (card {k \<in> set kws. sublist k content})) else None)"
    if "(emotion, kws) \<in> set emotions" for emotion kws
    unfolding analyze_emotions_closed
    using map_of_map_filter [OF distinct_emotions that,
            of "\<lambda>kws. keyword_hits kws content" "\<lambda>kws. keyword_hits kws content > 0"]
    by (simp only: hits [OF that] of_nat_0_less_iff)
  have b: "score > 0 \<and> emotion \<in> fst ` set emotions"
    if "(emotion, score) \<in> set (analyze_emotions content)" for emotion score
    using that unfolding analyze_emotions_closed by force
  have "map fst (analyze_emotions content)
          = map fst (filter (\<lambda>(emotion, kws). keyword_hits kws content > 0) emotions)"
    unfolding analyze_emotions_closed by (simp add: case_prod_unfold comp_def)
  then have c: "distinct (map fst (analyze_emotions content))"
    using distinct_emotions by (simp add: distinct_map_filter)
  from a b c show ?thesis by blast
qed

theorem analyze_emotions_positive_counts_witness:
  "(ustr ''positivo'',
      [ustr ''feliz'', ustr ''alegre'', ustr ''esperan'' @ [231] @ ustr ''a'', ustr ''amor'',
       ustr ''paz'', ustr ''luz'', ustr ''voar'', ustr ''liberdade'']) \<in> set emotions
   \<and> analyze_emotions (ustr ''paz e amor, sem medo'')
       = [(ustr ''positivo'', 2), (ustr ''ansioso'', 1)]
   \<and> card {k \<in> set [ustr ''feliz'', ustr ''alegre'', ustr ''esperan'' @ [231] @ ustr ''a'',
                     ustr ''amor'', ustr ''paz'', ustr ''luz'', ustr ''voar'', ustr ''liberdade''].
             sublist k (ustr ''paz e amor, sem medo'')} = 2"
proof -
  let ?c = "ustr ''paz e amor, sem medo''"
  let ?pw = "[ustr ''feliz'', ustr ''alegre'', ustr ''esperan'' @ [231] @ ustr ''a'', ustr ''amor'',
       ustr ''paz'', ustr ''luz'', ustr ''voar'', ustr ''liberdade'']"
  have m: "(ustr ''positivo'', ?pw) \<in> set emotions"
    using map_of_positivo by (rule map_of_SomeD)
  have e: "analyze_emotions ?c = [(ustr ''positivo'', 2), (ustr ''ansioso'', 1)]"
    by (simp add: analyze_emotions_def emotions_def keyword_hits_def ustr_def)
  from analyze_emotions_positive_counts [of ?c] m
  have "map_of (analyze_emotions ?c) (ustr ''positivo'')
          = (if card {k \<in> set ?pw. sublist k ?c} > 0
             then Some (int (card {k \<in> set ?pw. sublist k ?c})) else None)"
    by blast
  moreover have "map_of (analyze_emotions ?c) (ustr ''positivo'') = Some 2"
    by (simp add: e)
  ultimately have "card {k \<in> set ?pw. sublist k ?c} = 2"
    by (simp split: if_splits)
  with m e show ?thesis by simp
qed

text \<open>
  C7. On the empty sequence \<open>generate_dream_report\<close> returns the message
  \<open>Nenhum sonho para analisar.\<close> and leaves the state as it was: the clock has not been
  read, so no entry was analysed (every analysis reads it once), and no division was
  carried out. On a sequence that is not empty both counters do move
  (\<open>nonempty_report_counters\<close>).
\<close>

theorem empty_report:
  "generate_dream_report rt [] st = Inr (ustr ''Nenhum sonho para analisar.'', st)"
  by (simp add: generate_dream_report_def)

text \<open>
  C8. The analysis of the empty text does not raise: it returns the type \<open>indefinido\<close>, no
  emotion, no keyword, the positivity 50 and the word count 0. An entry without the key
  \<open>content\<close> is read as the empty text, and the report over a sequence that holds such an
  entry is the report over the same sequence with \<open>content\<close> set to the empty text in
  that entry; the report is produced, no error is raised.
\<close>

theorem missing_content_is_empty:
  "analyze_dream_content rt [] st =
     Inr (\<lparr> a_type = ustr ''indefinido'', a_emotions = [], a_keywords = [],
            a_positivity_score = 50, a_word_count = 0,
            a_analysis_date = isoformat rt (clock rt (clock_reads st)) \<rparr>,
          st\<lparr>clock_reads := clock_reads st + 1\<rparr>)
   \<and> (map_of dream (ustr ''content'') = None \<longrightarrow>
        dict_get dream (ustr ''content'') [] = []
        \<and> generate_dream_report rt (before @ dream # after) st
            = generate_dream_report rt (before @ ((ustr ''content'', []) # dream) # after) st
        \<and> (\<exists>report st'. generate_dream_report rt (before @ dream # after) st
                           = Inr (report, st')))"
proof -
  have "dict_get dream (ustr ''content'') [] = []
        \<and> generate_dream_report rt (before @ dream # after) st
            = generate_dream_report rt (before @ ((ustr ''content'', []) # dream) # after) st"
    if none: "map_of dream (ustr ''content'') = None"
  proof -
    from none have g: "dict_get dream (ustr ''content'') [] = []"
      by (simp add: dict_get_def)
    have g': "dict_get ((ustr ''content'', []) # dream) (ustr ''content'') [] = []"
      by (simp add: dict_get_def)
    have "map (\<lambda>e. dict_get e (ustr ''content'') []) (before @ dream # after)
            = map (\<lambda>e. dict_get e (ustr ''content'') [])
                (before @ ((ustr ''content'', []) # dream) # after)"
      by (simp add: g g')
    from generate_dream_report_contents [OF this] g show ?thesis by simp
  qed
  with analyze_empty generate_dream_report_total show ?thesis by blast
qed

theorem missing_content_is_empty_witness:
  "map_of [(ustr ''date'', ustr ''2025-01-10'')] (ustr ''content'') = None
   \<and> generate_dream_report latin1_runtime [[(ustr ''date'', ustr ''2025-01-10'')]] start_trace
       = generate_dream_report latin1_runtime
           [[(ustr ''content'', []), (ustr ''date'', ustr ''2025-01-10'')]] start_trace"
proof -
  have n: "map_of [(ustr ''date'', ustr ''2025-01-10'')] (ustr ''content'') = None"
    by (simp add: ustr_def)
  from missing_content_is_empty [of latin1_runtime start_trace
         "[(ustr ''date'', ustr ''2025-01-10'')]" "[]" "[]"] n
  show ?thesis by simp
qed

text \<open>
  C9. Over a sequence of entries that is not empty the loop of \<open>generate_dream_report\<close>
  returns, and in its \<open>types_count\<close> the type of every entry is a key, each key occurs
  once, and the count of a key is the number of entries of that type. So the counts sum to
  the number of entries, and the exact percentages (count divided by total, times 100, as
  rational numbers, before the program rounds them to doubles and to one decimal) sum to
  exactly 100.
\<close>

theorem types_count_sums_to_total:
  assumes "es \<noteq> []"
  shows "\<exists>types_count emotions_total avg st'.
           report_loop rt es ([], [], 0) st = Inr ((types_count, emotions_total, avg), st')
           \<and> distinct (map fst types_count)
           \<and> (\<forall>e \<in> set es.
                 detect_dream_type (lower rt (dict_get e (ustr ''content'') []))
                   \<in> fst ` set types_count)
           \<and> (\<forall>(t, n) \<in> set types_count.
                 n = int (length (filter
                       (\<lambda>e. detect_dream_type (lower rt (dict_get e (ustr ''content'') [])) = t)
                       es)))
           \<and> sum_list (map snd types_count) = int (length es)
           \<and> (\<Sum>(t, n) \<leftarrow> types_count. of_int n / of_int (int (length es)) * 100 :: rat) = 100"
proof -
  obtain acc' st' where "report_loop rt es ([], [], 0) st = Inr (acc', st')"
    using report_loop_Inr by blast
  then obtain tc et avg where loop: "report_loop rt es ([], [], 0) st = Inr ((tc, et, avg), st')"
    by (cases acc') auto
  let ?types = "map (\<lambda>e. detect_dream_type (lower rt (dict_get e (ustr ''content'') []))) es"
  have tc: "tc = fold (\<lambda>w d. dict_set w (dict_get d w 0 + (1::int)) d) ?types []"
    using loop by (rule report_loop_types_count)
  have d: "distinct (map fst tc)"
    unfolding tc by (rule distinct_fold_bump) simp
  have keys: "fst ` set tc = set ?types"
    unfolding tc by (simp add: keys_fold_bump)
  then have all: "\<forall>e \<in> set es.
      detect_dream_type (lower rt (dict_get e (ustr ''content'') [])) \<in> fst ` set tc"
    by simp
  have get: "dict_get tc t 0 = int (count_list ?types t)" for t
  proof -
    have "dict_get ([] :: (pystr \<times> int) list) t 0 = 0"
      by (simp add: dict_get_def)
    then show ?thesis
      unfolding tc dict_get_fold_bump by simp
  qed
  have counts: "n = int (length (filter
      (\<lambda>e. detect_dream_type (lower rt (dict_get e (ustr ''content'') [])) = t) es))"
    if "(t, n) \<in> set tc" for t n
    using dict_get_member [OF d that, of 0] by (simp add: get count_list_map)
  have total: "sum_list (map snd tc) = int (length es)"
    unfolding tc sum_fold_bump by simp
  have nz: "(of_int (int (length es)) :: rat) \<noteq> 0"
    using assms by simp
  have "(\<Sum>(t, n) \<leftarrow> tc. of_int n / of_int (int (length es)) * 100 :: rat)
          = of_int (sum_list (map snd tc)) / of_int (int (length es)) * 100"
    by (rule sum_list_percentages)
  also have "\<dots> = 100"
    unfolding total using nz by simp
  finally have pct: "(\<Sum>(t, n) \<leftarrow> tc. of_int n / of_int (int (length es)) * 100 :: rat) = 100" .
  from loop d all counts total pct show ?thesis by blast
qed

theorem types_count_sums_to_total_witness:
  "sample_dreams \<noteq> []
   \<and> (\<exists>types_count emotions_total avg st'.
         report_loop latin1_runtime sample_dreams ([], [], 0) start_trace
           = Inr ((types_count, emotions_total, avg), st')
         \<and> sum_list (map snd types_count) = 3
         \<and> (\<Sum>(t, n) \<leftarrow> types_count. of_int n / 3 * 100 :: rat) = 100)"
proof -
  have ne: "sample_dreams \<noteq> []" and len: "length sample_dreams = 3"
    by (simp_all add: sample_dreams_def)
  from types_count_sums_to_total [OF ne, of latin1_runtime start_trace] ne show ?thesis
    unfolding len by auto
qed

text \<open>
  C10. Two sequences of entries with the same content texts, position by position, give
  the same result of \<open>generate_dream_report\<close>, whatever their other fields are. When the
  sequences are not empty the report is a body followed by the line of the time of
  generation; the body and the final state are the same for both sequences and for every
  clock, and the last line is rendered from the reading of the clock that follows the
  readings of the analyses.
\<close>

theorem report_depends_on_contents_only:
  assumes "map (\<lambda>e. dict_get e (ustr ''content'') []) es1
             = map (\<lambda>e. dict_get e (ustr ''content'') []) es2"
  shows "generate_dream_report rt es1 st = generate_dream_report rt es2 st
         \<and> (es1 \<noteq> [] \<longrightarrow>
              (\<exists>body st'. \<forall>c1 c2.
                  generate_dream_report (rt\<lparr>clock := c1\<rparr>) es1 st
                    = Inr (body @ timestamp_line rt (c1 (clock_reads st + length es1)), st')
                  \<and> generate_dream_report (rt\<lparr>clock := c2\<rparr>) es2 st
                    = Inr (body @ timestamp_line rt (c2 (clock_reads st + length es1)), st')))"
proof -
  have same: "generate_dream_report rt' es1 st = generate_dream_report rt' es2 st"
    for rt' :: "'a runtime"
    using assms by (rule generate_dream_report_contents)
  have "\<exists>body st'. \<forall>c1 c2.
          generate_dream_report (rt\<lparr>clock := c1\<rparr>) es1 st
            = Inr (body @ timestamp_line rt (c1 (clock_reads st + length es1)), st')
          \<and> generate_dream_report (rt\<lparr>clock := c2\<rparr>) es2 st
            = Inr (body @ timestamp_line rt (c2 (clock_reads st + length es1)), st')"
    if "es1 \<noteq> []"
  proof -
    from generate_dream_report_Inr [OF that, of rt st] obtain body divs
      where b: "\<And>c. generate_dream_report (rt\<lparr>clock := c\<rparr>) es1 st =
              Inr (body @ timestamp_line rt (c (clock_reads st + length es1)),
                   st\<lparr>clock_reads := clock_reads st + length es1 + 1, divisions := divs\<rparr>)"
      by blast
    have "generate_dream_report (rt\<lparr>clock := c\<rparr>) es2 st =
              Inr (body @ timestamp_line rt (c (clock_reads st + length es1)),
                   st\<lparr>clock_reads := clock_reads st + length es1 + 1, divisions := divs\<rparr>)" for c
      using b [of c] same [of "rt\<lparr>clock := c\<rparr>"] by simp
    with b show ?thesis by blast
  qed
  with same show ?thesis by blast
qed

theorem report_depends_on_contents_only_witness:
  "map (\<lambda>e. dict_get e (ustr ''content'') [])
       [[(ustr ''content'', ustr ''paz''), (ustr ''type'', ustr ''futuro'')]]
     = map (\<lambda>e. dict_get e (ustr ''content'') [])
         [[(ustr ''date'', ustr ''2025-01-08''), (ustr ''content'', ustr ''paz'')]]
   \<and> [[(ustr ''content'', ustr ''paz''), (ustr ''type'', ustr ''futuro'')]] \<noteq> []
   \<and> generate_dream_report latin1_runtime
        [[(ustr ''content'', ustr ''paz''), (ustr ''type'', ustr ''futuro'')]] start_trace
      = generate_dream_report latin1_runtime
          [[(ustr ''date'', ustr ''2025-01-08''), (ustr ''content'', ustr ''paz'')]] start_trace"
proof -
  have c: "map (\<lambda>e. dict_get e (ustr ''content'') [])
       [[(ustr ''content'', ustr ''paz''), (ustr ''type'', ustr ''futuro'')]]
     = map (\<lambda>e. dict_get e (ustr ''content'') [])
         [[(ustr ''date'', ustr ''2025-01-08''), (ustr ''content'', ustr ''paz'')]]"
    by (simp add: dict_get_def ustr_def)
  from report_depends_on_contents_only [OF c, of latin1_runtime start_trace] c show ?thesis
    by simp
qed

end
